theory Spec2Isabelle
  imports Complex_Main
begin

section \<open>Python values, errors and strings\<close>

text \<open>
  Exceptions are values: every \<^verbatim>\<open>raise\<close> of the source is an \<open>Inl\<close> of the result
  type \<open>py_error + 'a\<close>. \<open>HTTPException\<close> carries its status code and its detail text;
  \<open>AttributeError\<close> carries the attribute that was not found.
\<close>

datatype py_error =
    HTTPException int string
  | AttributeError string
  | ZeroDivisionError
  | TypeError
  | ExpiredSignatureError
  | InvalidTokenError

text \<open>
  \<^verbatim>\<open>str.lower()\<close> on 8-bit text: the letters A to Z go to a to z, every other
  character stays.
\<close>

definition lower_char :: "char \<Rightarrow> char" where
  "lower_char c =
     (case map_of (zip ''ABCDEFGHIJKLMNOPQRSTUVWXYZ'' ''abcdefghijklmnopqrstuvwxyz'') c of
        Some l \<Rightarrow> l
      | None \<Rightarrow> c)"

definition lower :: "string \<Rightarrow> string" where
  "lower s = map lower_char s"

text \<open>
  Python floats. Finite values are idealised as reals; the three special values that
  \<^verbatim>\<open>float()\<close> can return from a string (\<^verbatim>\<open>inf\<close>, \<^verbatim>\<open>-inf\<close>, \<^verbatim>\<open>nan\<close>)
  are kept, with the IEEE rules for comparison, product and sum.
\<close>

datatype pyfloat = Fin real | PInf | NInf | NaN

fun pf_less_zero :: "pyfloat \<Rightarrow> bool" where
  "pf_less_zero (Fin r) = (r < 0)"
| "pf_less_zero NInf = True"
| "pf_less_zero PInf = False"
| "pf_less_zero NaN = False"



text \<open>
  \<^verbatim>\<open>round(x, 3)\<close>: to the nearest multiple of 1/1000, a tie going to the even
  neighbour.
\<close>

definition round3 :: "real \<Rightarrow> real" where
  "round3 x =
     (let y = x * 1000; f = \<lfloor>y\<rfloor>; d = y - of_int f in
        (if d < 1 / 2 then of_int f
         else if 1 / 2 < d then of_int (f + 1)
         else if even f then of_int f
         else of_int (f + 1)) / 1000)"


text \<open>The decimal text of an integer, as an f-string renders it.\<close>

fun str_nat :: "nat \<Rightarrow> string" where
  "str_nat n =
     (if n < 10 then [''0123456789'' ! n]
      else str_nat (n div 10) @ [''0123456789'' ! (n mod 10)])"

definition str_int :: "int \<Rightarrow> string" where
  "str_int i = (if i < 0 then ''-'' @ str_nat (nat (- i)) else str_nat (nat i))"

section \<open>The relational store (models.py)\<close>

text \<open>
  One record per table row, one list per table. Columns named \<^verbatim>\<open>id\<close>, \<^verbatim>\<open>name\<close>,
  \<^verbatim>\<open>email\<close>, \<^verbatim>\<open>password\<close>, \<^verbatim>\<open>trip_id\<close>, \<^verbatim>\<open>hotel_id\<close> occur in several tables and
  carry a prefix for their table here; the other columns keep their names. Times are
  seconds. The timestamp columns filled by a default (\<^verbatim>\<open>created_at\<close>,
  \<^verbatim>\<open>uploaded_at\<close>) and the derived carbon columns, which no function writes, are left out.
\<close>

type_synonym datetime = int

record Hotel =
  h_id :: int
  h_name :: string
  h_email :: string
  h_password :: string

record TravelAgent =
  a_id :: int
  a_name :: string
  a_email :: string
  a_password :: string
  a_company :: "string option"

record Trip =
  t_id :: int
  travel_agent_id :: int
  trip_name :: string
  trip_description :: "string option"
  number_of_tourists :: int
  start_date :: datetime
  end_date :: datetime

record FlightSegment =
  fs_id :: int
  fs_trip_id :: int
  departure_airport :: string
  arrival_airport :: string
  transit_airports :: "string option"

record LocalTransport =
  lt_id :: int
  lt_trip_id :: int
  vehicle_type :: string
  distance_km :: real

record HotelStay =
  hs_id :: int
  hs_trip_id :: int
  hs_hotel_id :: int
  number_of_nights :: int
  check_in_date :: datetime
  check_out_date :: datetime

record UtilityBill =
  ub_id :: int
  ub_hotel_id :: int
  ub_hotel_name :: string
  bill_type :: string
  bill_month :: int
  bill_year :: int
  bill_amount :: string
  unit :: string
  file_url :: string

record db =
  hotels :: "Hotel list"
  travel_agents :: "TravelAgent list"
  trips :: "Trip list"
  flight_segments :: "FlightSegment list"
  local_transports :: "LocalTransport list"
  hotel_stays :: "HotelStay list"
  utility_bills :: "UtilityBill list"

text \<open>The key a table gives a new row: above every key in use.\<close>

definition fresh_id :: "int list \<Rightarrow> int" where
  "fresh_id ids = fold max ids 0 + 1"

section \<open>Carbon accounting (routes.py)\<close>

subsection \<open>calculate_flight_carbon\<close>

definition airport_distances :: "string \<times> string \<rightharpoonup> int" where
  "airport_distances =
     map_of [((''JFK'', ''LHR''), 5550),
             ((''LHR'', ''CDG''), 350),
             ((''CDG'', ''FCO''), 1110),
             ((''FCO'', ''ATH''), 1050)]"

text \<open>
  \<^verbatim>\<open>a or b\<close> on two optional integers: \<open>a\<close> when it is neither \<^verbatim>\<open>None\<close> nor 0,
  else \<open>b\<close>.
\<close>

definition py_or :: "int option \<Rightarrow> int option \<Rightarrow> int option" where
  "py_or a b = (case a of Some v \<Rightarrow> if v \<noteq> 0 then Some v else b | None \<Rightarrow> b)"

definition calculate_flight_carbon :: "string \<Rightarrow> string \<Rightarrow> int \<Rightarrow> real" where
  "calculate_flight_carbon departure arrival passengers =
     (let distance0 = py_or (airport_distances (departure, arrival))
                            (airport_distances (arrival, departure));
          distance = (case distance0 of
                        None \<Rightarrow> 500
                      | Some d \<Rightarrow> if d = 0 then 500 else d);
          emission_factor = 0.255
      in real_of_int distance * emission_factor * real_of_int passengers)"

subsection \<open>calculate_transport_carbon\<close>

definition transport_factors :: "string \<rightharpoonup> real" where
  "transport_factors =
     map_of [(''bus'', 0.089),
             (''car'', 0.171),
             (''train'', 0.041),
             (''taxi'', 0.171),
             (''metro'', 0.033)]"

definition calculate_transport_carbon :: "string \<Rightarrow> real \<Rightarrow> int \<Rightarrow> real" where
  "calculate_transport_carbon vehicle km passengers =
     (let factor = (case transport_factors (lower vehicle) of
                      Some f \<Rightarrow> f
                    | None \<Rightarrow> 0.171)
      in km * factor * real_of_int passengers)"

subsection \<open>calculate_hotel_stay_carbon\<close>

text \<open>
  The value of an attribute of a row. Reading an attribute that the \<^verbatim>\<open>UtilityBill\<close>
  model does not declare raises \<^verbatim>\<open>AttributeError\<close>.
\<close>

datatype pyval = PNone | PInt int | PStr string | PFloat real

definition getattr_UtilityBill :: "UtilityBill \<Rightarrow> string \<Rightarrow> py_error + pyval" where
  "getattr_UtilityBill bill attr =
     (if attr = ''id'' then Inr (PInt (ub_id bill))
      else if attr = ''hotel_id'' then Inr (PInt (ub_hotel_id bill))
      else if attr = ''hotel_name'' then Inr (PStr (ub_hotel_name bill))
      else if attr = ''bill_type'' then Inr (PStr (bill_type bill))
      else if attr = ''bill_month'' then Inr (PInt (bill_month bill))
      else if attr = ''bill_year'' then Inr (PInt (bill_year bill))
      else if attr = ''bill_amount'' then Inr (PStr (bill_amount bill))
      else if attr = ''unit'' then Inr (PStr (unit bill))
      else if attr = ''file_url'' then Inr (PStr (file_url bill))
      else Inl (AttributeError attr))"

text \<open>
  \<^verbatim>\<open>v and v > 0\<close>: a falsy \<open>v\<close> ends the test, a number is compared with 0, and a
  non-empty string cannot be compared with a number.
\<close>

fun py_and_positive :: "pyval \<Rightarrow> py_error + bool" where
  "py_and_positive PNone = Inr False"
| "py_and_positive (PInt i) = Inr (0 < i)"
| "py_and_positive (PFloat r) = Inr (0 < r)"
| "py_and_positive (PStr s) = (if s = [] then Inr False else Inl TypeError)"

fun py_number :: "pyval \<Rightarrow> py_error + real" where
  "py_number (PInt i) = Inr (real_of_int i)"
| "py_number (PFloat r) = Inr r"
| "py_number v = Inl TypeError"

definition stay_emission_factors :: "string \<rightharpoonup> real" where
  "stay_emission_factors =
     map_of [(''electricity'', 0.708),
             (''gas'', 2.204),
             (''water'', 0.298),
             (''diesel'', 2.687)]"

text \<open>
  The loop over the hotel's bills, with its two accumulators \<^verbatim>\<open>total_emissions\<close> and
  \<^verbatim>\<open>total_days\<close>.
\<close>

fun stay_bills_loop :: "UtilityBill list \<Rightarrow> real \<times> nat \<Rightarrow> py_error + real \<times> nat" where
  "stay_bills_loop [] acc = Inr acc"
| "stay_bills_loop (bill # rest) (total_emissions, total_days) =
     (case getattr_UtilityBill bill ''consumption_amount'' of
        Inl e \<Rightarrow> Inl e
      | Inr consumption \<Rightarrow>
          (case py_and_positive consumption of
             Inl e \<Rightarrow> Inl e
           | Inr False \<Rightarrow> stay_bills_loop rest (total_emissions, total_days)
           | Inr True \<Rightarrow>
               (case py_number consumption of
                  Inl e \<Rightarrow> Inl e
                | Inr amount \<Rightarrow>
                    (let bill_emissions =
                           amount * (case stay_emission_factors (bill_type bill) of
                                       Some f \<Rightarrow> f
                                     | None \<Rightarrow> 0.5);
                         days_in_bill = 30;
                         daily_emissions = bill_emissions / days_in_bill
                     in stay_bills_loop rest
                          (total_emissions + daily_emissions, total_days + 1)))))"

definition calculate_hotel_stay_carbon :: "int \<Rightarrow> int \<Rightarrow> int \<Rightarrow> db \<Rightarrow> py_error + real" where
  "calculate_hotel_stay_carbon hotel_id nights guests d =
     (let hotel_bills = filter (\<lambda>b. ub_hotel_id b = hotel_id) (utility_bills d) in
        if hotel_bills = [] then
          Inr (30.0 * real_of_int nights * (real_of_int guests / 2))
        else
          (case stay_bills_loop hotel_bills (0.0, 0) of
             Inl e \<Rightarrow> Inl e
           | Inr (total_emissions, total_days) \<Rightarrow>
               if 0 < total_days then
                 (let average_daily_emissions = total_emissions / real total_days
                  in Inr (average_daily_emissions * real_of_int nights * (real_of_int guests / 2)))
               else Inr (30.0 * real_of_int nights * (real_of_int guests / 2))))"

subsection \<open>calculate_trip_total_carbon, get_trip_carbon_breakdown\<close>

text \<open>The loop over a trip's hotel stays, adding to \<^verbatim>\<open>total_carbon\<close>.\<close>

fun total_stays_loop :: "db \<Rightarrow> int \<Rightarrow> HotelStay list \<Rightarrow> real \<Rightarrow> py_error + real" where
  "total_stays_loop d tourists [] total_carbon = Inr total_carbon"
| "total_stays_loop d tourists (stay # rest) total_carbon =
     (case calculate_hotel_stay_carbon (hs_hotel_id stay) (number_of_nights stay) tourists d of
        Inl e \<Rightarrow> Inl e
      | Inr c \<Rightarrow> total_stays_loop d tourists rest (total_carbon + c))"

definition calculate_trip_total_carbon :: "int \<Rightarrow> db \<Rightarrow> py_error + real" where
  "calculate_trip_total_carbon trip_id d =
     (case find (\<lambda>t. t_id t = trip_id) (trips d) of
        None \<Rightarrow> Inr 0.0
      | Some trip \<Rightarrow>
          (let flights = filter (\<lambda>f. fs_trip_id f = trip_id) (flight_segments d);
               total1 = foldl (\<lambda>total flight. total +
                           calculate_flight_carbon (departure_airport flight)
                             (arrival_airport flight) (number_of_tourists trip)) 0.0 flights;
               transports = filter (\<lambda>t. lt_trip_id t = trip_id) (local_transports d);
               total2 = foldl (\<lambda>total transport. total +
                           calculate_transport_carbon (vehicle_type transport)
                             (distance_km transport) (number_of_tourists trip)) total1 transports;
               stays = filter (\<lambda>s. hs_trip_id s = trip_id) (hotel_stays d)
           in total_stays_loop d (number_of_tourists trip) stays total2))"

record FlightDetail =
  fd_route :: string
  fd_carbon_kg :: real
  fd_passengers :: int

record TransportDetail =
  td_vehicle_type :: string
  td_distance_km :: real
  td_carbon_kg :: real
  td_passengers :: int

record HotelDetail =
  hd_hotel_name :: string
  hd_nights :: int
  hd_carbon_kg :: real
  hd_guests :: int

record CarbonBreakdown =
  flights_breakdown :: "FlightDetail list"
  transport_breakdown :: "TransportDetail list"
  hotels_breakdown :: "HotelDetail list"

definition get_trip_carbon_breakdown :: "int \<Rightarrow> db \<Rightarrow> CarbonBreakdown" where
  "get_trip_carbon_breakdown trip_id d =
     \<lparr>flights_breakdown = [], transport_breakdown = [], hotels_breakdown = []\<rparr>"

subsection \<open>get_trip_carbon_details\<close>

record TripCarbonDetails =
  cd_trip_id :: int
  cd_trip_name :: string
  cd_number_of_tourists :: int
  cd_total_carbon_kg :: real
  cd_carbon_per_tourist_kg :: real
  cd_breakdown :: CarbonBreakdown

text \<open>True division of a float by an integer: a zero divisor raises.\<close>

definition py_truediv :: "real \<Rightarrow> int \<Rightarrow> py_error + real" where
  "py_truediv x n = (if n = 0 then Inl ZeroDivisionError else Inr (x / real_of_int n))"

definition get_trip_carbon_details :: "int \<Rightarrow> TravelAgent \<Rightarrow> db \<Rightarrow> py_error + TripCarbonDetails" where
  "get_trip_carbon_details trip_id current_agent d =
     (case find (\<lambda>t. t_id t = trip_id \<and> travel_agent_id t = a_id current_agent) (trips d) of
        None \<Rightarrow> Inl (HTTPException 404 ''Trip not found'')
      | Some trip \<Rightarrow>
          (case calculate_trip_total_carbon trip_id d of
             Inl e \<Rightarrow> Inl e
           | Inr total_carbon \<Rightarrow>
               (let carbon_breakdown = get_trip_carbon_breakdown trip_id d in
                  case py_truediv total_carbon (number_of_tourists trip) of
                    Inl e \<Rightarrow> Inl e
                  | Inr per_tourist \<Rightarrow>
                      Inr \<lparr>cd_trip_id = t_id trip,
                           cd_trip_name = trip_name trip,
                           cd_number_of_tourists = number_of_tourists trip,
                           cd_total_carbon_kg = round3 total_carbon,
                           cd_carbon_per_tourist_kg = round3 per_tourist,
                           cd_breakdown = carbon_breakdown\<rparr>)))"

section \<open>Trip ledger (routes.py)\<close>

subsection \<open>create_trip\<close>

text \<open>The request body (schemas.py); the fields carry a prefix for their schema.\<close>

record FlightSegmentCreate =
  fc_departure_airport :: string
  fc_arrival_airport :: string
  fc_transit_airports :: "string option"

record LocalTransportCreate =
  tc_vehicle_type :: string
  tc_distance_km :: real

record HotelStayCreate =
  sc_hotel_id :: int
  sc_number_of_nights :: int
  sc_check_in_date :: datetime
  sc_check_out_date :: datetime

record TripCreate =
  c_trip_name :: string
  c_trip_description :: "string option"
  c_number_of_tourists :: int
  c_start_date :: datetime
  c_end_date :: datetime
  c_flight_segments :: "FlightSegmentCreate list"
  c_local_transports :: "LocalTransportCreate list"
  c_hotel_stays :: "HotelStayCreate list"

record TripCarbonResponse =
  r_trip_id :: int
  r_trip_name :: string
  r_number_of_tourists :: int
  total_carbon_kg :: real
  carbon_per_tourist_kg :: real
  flights_carbon_kg :: real
  transport_carbon_kg :: real
  hotels_carbon_kg :: real
  flight_details :: "FlightDetail list"
  transport_details :: "TransportDetail list"
  hotel_details :: "HotelDetail list"

text \<open>
  The session: \<^verbatim>\<open>db.add\<close> puts a row among the pending ones, which have no key yet
  (a pending row is a function of the key it will get); \<^verbatim>\<open>db.commit\<close> inserts the
  pending rows, each under a fresh key. The session is closed when the request ends, so
  the rows still pending when an exception leaves the function are never inserted.
\<close>

definition insert_rows :: "('r \<Rightarrow> int) \<Rightarrow> (int \<Rightarrow> 'r) list \<Rightarrow> 'r list \<Rightarrow> 'r list" where
  "insert_rows key pending table =
     foldl (\<lambda>tbl mk. tbl @ [mk (fresh_id (map key tbl))]) table pending"

text \<open>The arrow of the route text, in UTF-8.\<close>

definition route_text :: "string \<Rightarrow> string \<Rightarrow> string" where
  "route_text dep arr = dep @ '' '' @ [CHR 0xE2, CHR 0x86, CHR 0x92] @ '' '' @ arr"

text \<open>
  The loop over the requested hotel stays: the pending rows, \<^verbatim>\<open>total_hotels_carbon\<close>
  and \<^verbatim>\<open>hotel_details\<close> are its accumulators.
\<close>

fun create_stays_loop ::
  "db \<Rightarrow> int \<Rightarrow> int \<Rightarrow> HotelStayCreate list \<Rightarrow>
   (int \<Rightarrow> HotelStay) list \<times> real \<times> HotelDetail list \<Rightarrow>
   py_error + (int \<Rightarrow> HotelStay) list \<times> real \<times> HotelDetail list" where
  "create_stays_loop d trip_id tourists [] acc = Inr acc"
| "create_stays_loop d trip_id tourists (hotel_data # rest)
     (pending, total_hotels_carbon, details) =
     (case calculate_hotel_stay_carbon (sc_hotel_id hotel_data)
             (sc_number_of_nights hotel_data) tourists d of
        Inl e \<Rightarrow> Inl e
      | Inr hotel_carbon \<Rightarrow>
          (let hotel_name =
                 (case find (\<lambda>h. h_id h = sc_hotel_id hotel_data) (hotels d) of
                    Some hotel_record \<Rightarrow> h_name hotel_record
                  | None \<Rightarrow> ''Unknown Hotel'')
           in create_stays_loop d trip_id tourists rest
                (pending @ [\<lambda>i. \<lparr>hs_id = i, hs_trip_id = trip_id,
                                  hs_hotel_id = sc_hotel_id hotel_data,
                                  number_of_nights = sc_number_of_nights hotel_data,
                                  check_in_date = sc_check_in_date hotel_data,
                                  check_out_date = sc_check_out_date hotel_data\<rparr>],
                 total_hotels_carbon + hotel_carbon,
                 details @ [\<lparr>hd_hotel_name = hotel_name,
                              hd_nights = sc_number_of_nights hotel_data,
                              hd_carbon_kg = hotel_carbon,
                              hd_guests = tourists\<rparr>])))"

text \<open>
  The result is the store as the request leaves it, and the response or the exception.
\<close>

definition create_trip :: "TripCreate \<Rightarrow> TravelAgent \<Rightarrow> db \<Rightarrow> db \<times> (py_error + TripCarbonResponse)" where
  "create_trip trip current_agent d =
     (let db_trip = \<lparr>t_id = fresh_id (map t_id (trips d)),
                     travel_agent_id = a_id current_agent,
                     trip_name = c_trip_name trip,
                     trip_description = c_trip_description trip,
                     number_of_tourists = c_number_of_tourists trip,
                     start_date = c_start_date trip,
                     end_date = c_end_date trip\<rparr>;
          d1 = d\<lparr>trips := trips d @ [db_trip]\<rparr>;
          tourists = c_number_of_tourists trip;
          pending_flights =
            map (\<lambda>flight_data i. \<lparr>fs_id = i, fs_trip_id = t_id db_trip,
                    departure_airport = fc_departure_airport flight_data,
                    arrival_airport = fc_arrival_airport flight_data,
                    transit_airports = fc_transit_airports flight_data\<rparr>)
              (c_flight_segments trip);
          flight_details =
            map (\<lambda>flight_data.
                   \<lparr>fd_route = route_text (fc_departure_airport flight_data)
                                 (fc_arrival_airport flight_data),
                    fd_carbon_kg = calculate_flight_carbon (fc_departure_airport flight_data)
                                     (fc_arrival_airport flight_data) tourists,
                    fd_passengers = tourists\<rparr>)
              (c_flight_segments trip);
          total_flights_carbon = foldl (\<lambda>total x. total + fd_carbon_kg x) 0.0 flight_details;
          pending_transports =
            map (\<lambda>transport_data i. \<lparr>lt_id = i, lt_trip_id = t_id db_trip,
                    vehicle_type = tc_vehicle_type transport_data,
                    distance_km = tc_distance_km transport_data\<rparr>)
              (c_local_transports trip);
          transport_details =
            map (\<lambda>transport_data.
                   \<lparr>td_vehicle_type = tc_vehicle_type transport_data,
                    td_distance_km = tc_distance_km transport_data,
                    td_carbon_kg = calculate_transport_carbon (tc_vehicle_type transport_data)
                                     (tc_distance_km transport_data) tourists,
                    td_passengers = tourists\<rparr>)
              (c_local_transports trip);
          total_transport_carbon =
            foldl (\<lambda>total x. total + td_carbon_kg x) 0.0 transport_details
      in case create_stays_loop d1 (t_id db_trip) tourists (c_hotel_stays trip) ([], 0.0, []) of
           Inl e \<Rightarrow> (d1, Inl e)
         | Inr (pending_stays, total_hotels_carbon, stay_details) \<Rightarrow>
             (let d2 = d1\<lparr>flight_segments :=
                            insert_rows fs_id pending_flights (flight_segments d1),
                          local_transports :=
                            insert_rows lt_id pending_transports (local_transports d1),
                          hotel_stays :=
                            insert_rows hs_id pending_stays (hotel_stays d1)\<rparr>;
                  total_carbon =
                    total_flights_carbon + total_transport_carbon + total_hotels_carbon;
                  carbon_per_tourist =
                    (if 0 < tourists then total_carbon / real_of_int tourists else 0)
              in (d2, Inr \<lparr>r_trip_id = t_id db_trip,
                           r_trip_name = trip_name db_trip,
                           r_number_of_tourists = tourists,
                           total_carbon_kg = round3 total_carbon,
                           carbon_per_tourist_kg = round3 carbon_per_tourist,
                           flights_carbon_kg = round3 total_flights_carbon,
                           transport_carbon_kg = round3 total_transport_carbon,
                           hotels_carbon_kg = round3 total_hotels_carbon,
                           flight_details = flight_details,
                           transport_details = transport_details,
                           hotel_details = stay_details\<rparr>)))"

section \<open>Bill ledger (routes.py)\<close>

subsection \<open>upload_bill\<close>

text \<open>
  What the request takes from outside the repository: Python's \<^verbatim>\<open>float()\<close> on a string
  (\<open>None\<close> where it raises \<^verbatim>\<open>ValueError\<close>), the clock (the current year, and the
  timestamp as the f-string renders it), the bucket name, and whether the upload to the
  bucket raises (with which message).
\<close>

record upload_env =
  float_of_str :: "string \<Rightarrow> pyfloat option"
  current_year :: int
  timestamp :: string
  S3_BUCKET :: string
  s3_error :: "string option"

record UploadFile =
  filename :: string
  file_content :: string

record BillUploadResponse =
  br_id :: int
  br_bill_type :: string
  br_bill_month :: int
  br_bill_year :: int
  br_bill_amount :: string
  br_unit :: string
  br_file_url :: string
  br_message :: string

text \<open>The bucket is the list of its objects, each a key and a content.\<close>

type_synonym s3_bucket = "(string \<times> string) list"

definition valid_units :: "string \<rightharpoonup> string list" where
  "valid_units =
     map_of [(''electricity'', [''kWh'', ''kw'', ''kwh'', ''kilowatt-hours'', ''units'']),
             (''water'', [''liters'', ''litres'', ''gallons'', ''cubic meters'', ''m3'',
                          ''l'', ''gal''])]"

definition valid_units_get :: "string \<Rightarrow> string list" where
  "valid_units_get btype = (case valid_units btype of Some us \<Rightarrow> us | None \<Rightarrow> [])"

fun join :: "string \<Rightarrow> string list \<Rightarrow> string" where
  "join sep [] = []"
| "join sep [x] = x"
| "join sep (x # y # ys) = x @ sep @ join sep (y # ys)"

text \<open>
  \<open>current_hotel\<close> is the pair of \<^verbatim>\<open>hotel_id\<close> and \<^verbatim>\<open>hotel_name\<close> that the hotel
  verifier took from the token. The result is the bucket and the store as the request
  leaves them, and the response or the exception.
\<close>

definition upload_bill ::
  "upload_env \<Rightarrow> string \<Rightarrow> int \<Rightarrow> int \<Rightarrow> string \<Rightarrow> string \<Rightarrow> UploadFile \<Rightarrow>
   int \<times> string \<Rightarrow> s3_bucket \<times> db \<Rightarrow>
   (s3_bucket \<times> db) \<times> (py_error + BillUploadResponse)" where
  "upload_bill env btype bmonth byear bamount bunit file current_hotel w =
     (if btype \<notin> set [''electricity'', ''water''] then
        (w, Inl (HTTPException 400
               (''Invalid bill type. Must be 'electricity' or 'water'' @ [CHR 0x27])))
      else if \<not> (1 \<le> bmonth \<and> bmonth \<le> 12) then
        (w, Inl (HTTPException 400 ''Invalid month. Must be between 1 and 12''))
      else if byear < 2020 \<or> current_year env + 1 < byear then
        (w, Inl (HTTPException 400
               (''Invalid year. Must be between 2020 and '' @ str_int (current_year env + 1))))
      else
        (case float_of_str env bamount of
           None \<Rightarrow>
             (w, Inl (HTTPException 400
                    ''Bill amount must be a valid number (e.g., '450' or '1250.75')''))
         | Some float_amount \<Rightarrow>
             if pf_less_zero float_amount then
               (w, Inl (HTTPException 400 ''Bill amount must be a positive number''))
             else if lower bunit \<notin> set (map lower (valid_units_get btype)) then
               (w, Inl (HTTPException 400
                      (''Invalid unit for '' @ btype @ ''. Valid units: '' @
                       join '', '' (valid_units_get btype))))
             else
               (let hotel_id = fst current_hotel;
                    hotel_name = snd current_hotel;
                    fname = str_int hotel_id @ ''_'' @ btype @ ''_'' @ str_int byear @ ''_'' @
                            str_int bmonth @ ''_'' @ timestamp env @ ''_'' @ filename file
                in case s3_error env of
                     Some msg \<Rightarrow> (w, Inl (HTTPException 500 (''Upload failed: '' @ msg)))
                   | None \<Rightarrow>
                       (let s3 = fst w @ [(fname, file_content file)];
                            url = ''https://'' @ S3_BUCKET env @ ''.s3.amazonaws.com/'' @ fname;
                            db_bill = \<lparr>ub_id = fresh_id (map ub_id (utility_bills (snd w))),
                                       ub_hotel_id = hotel_id,
                                       ub_hotel_name = hotel_name,
                                       bill_type = btype,
                                       bill_month = bmonth,
                                       bill_year = byear,
                                       bill_amount = bamount,
                                       unit = bunit,
                                       file_url = url\<rparr>;
                            d = (snd w)\<lparr>utility_bills := utility_bills (snd w) @ [db_bill]\<rparr>
                        in ((s3, d),
                            Inr \<lparr>br_id = ub_id db_bill,
                                 br_bill_type = bill_type db_bill,
                                 br_bill_month = bill_month db_bill,
                                 br_bill_year = bill_year db_bill,
                                 br_bill_amount = bill_amount db_bill,
                                 br_unit = unit db_bill,
                                 br_file_url = file_url db_bill,
                                 br_message = ''Bill uploaded successfully''\<rparr>)))))"

subsection \<open>calculate_carbon_footprint\<close>






section \<open>Credential service (auth.py)\<close>

subsection \<open>Tokens\<close>

text \<open>
  The \<^verbatim>\<open>jwt\<close> library and \<^verbatim>\<open>bcrypt\<close> are not part of the repository. A token is
  modelled as its claim set together with the key that signed it; any other text is
  \<open>Garbage\<close>. Decoding checks the key, then the expiry claim, and raises the library's
  \<^verbatim>\<open>InvalidTokenError\<close> or \<^verbatim>\<open>ExpiredSignatureError\<close>. \<^verbatim>\<open>bcrypt.verify\<close> is a
  parameter of the login functions.
\<close>

datatype jval = JInt int | JStr string

type_synonym payload = "string \<rightharpoonup> jval"

datatype token = Token payload string | Garbage string

definition jwt_encode :: "payload \<Rightarrow> string \<Rightarrow> token" where
  "jwt_encode claims key = Token claims key"

definition jwt_decode :: "datetime \<Rightarrow> token \<Rightarrow> string \<Rightarrow> py_error + payload" where
  "jwt_decode now tok key =
     (case tok of
        Garbage _ \<Rightarrow> Inl InvalidTokenError
      | Token claims k \<Rightarrow>
          if k \<noteq> key then Inl InvalidTokenError
          else (case claims ''exp'' of
                  None \<Rightarrow> Inr claims
                | Some (JStr _) \<Rightarrow> Inl InvalidTokenError
                | Some (JInt e) \<Rightarrow> if e \<le> now then Inl ExpiredSignatureError else Inr claims))"

definition create_access_token :: "string \<Rightarrow> datetime \<Rightarrow> payload \<Rightarrow> token" where
  "create_access_token secret now data =
     (let expire = now + 24 * 3600;
          to_encode = data(''exp'' \<mapsto> JInt expire)
      in jwt_encode to_encode secret)"

text \<open>Truth value of \<^verbatim>\<open>payload.get(k)\<close>: absent, 0 and the empty string are falsy.\<close>

fun truthy :: "jval option \<Rightarrow> bool" where
  "truthy None = False"
| "truthy (Some (JInt i)) = (i \<noteq> 0)"
| "truthy (Some (JStr s)) = (s \<noteq> [])"

subsection \<open>get_current_hotel, get_current_travel_agent\<close>

text \<open>
  An \<^verbatim>\<open>except jwt.X\<close> clause looks the class \<open>X\<close> up in the \<^verbatim>\<open>jwt\<close> module when an
  exception reaches it, and the lookup of a name that the module does not define raises
  \<^verbatim>\<open>AttributeError\<close> in place of the exception being handled. Which names the module
  defines is the parameter \<open>jwt_has\<close> of the two verifiers. A clause whose class is
  defined catches the token errors of that class: \<^verbatim>\<open>ExpiredSignatureError\<close> the expiry
  error, \<^verbatim>\<open>InvalidTokenError\<close> and \<^verbatim>\<open>JWTError\<close> every token error. An
  \<^verbatim>\<open>HTTPException\<close> raised inside the \<^verbatim>\<open>try\<close> block is of none of these classes.
\<close>

definition get_current_hotel ::
  "(string \<Rightarrow> bool) \<Rightarrow> string \<Rightarrow> datetime \<Rightarrow> token \<Rightarrow> py_error + jval \<times> jval" where
  "get_current_hotel jwt_has secret now tok =
     (let body =
            (case jwt_decode now tok secret of
               Inl e \<Rightarrow> Inl e
             | Inr claims \<Rightarrow>
                 (let hotel_id = claims ''hotel_id'';
                      hotel_name = claims ''hotel_name''
                  in if \<not> truthy hotel_id \<or> \<not> truthy hotel_name then
                       Inl (HTTPException 401 ''Invalid token: missing hotel information'')
                     else Inr (the hotel_id, the hotel_name)))
      in case body of
           Inr v \<Rightarrow> Inr v
         | Inl e \<Rightarrow>
             if \<not> jwt_has ''ExpiredSignatureError'' then
               Inl (AttributeError ''ExpiredSignatureError'')
             else if e = ExpiredSignatureError then
               Inl (HTTPException 401 ''Token has expired'')
             else if \<not> jwt_has ''InvalidTokenError'' then
               Inl (AttributeError ''InvalidTokenError'')
             else if e = InvalidTokenError then
               Inl (HTTPException 401 ''Invalid token'')
             else Inl e)"

definition get_current_travel_agent ::
  "(string \<Rightarrow> bool) \<Rightarrow> string \<Rightarrow> datetime \<Rightarrow> token \<Rightarrow> db \<Rightarrow> py_error + TravelAgent" where
  "get_current_travel_agent jwt_has secret now tok d =
     (let body =
            (case jwt_decode now tok secret of
               Inl e \<Rightarrow> Inl e
             | Inr claims \<Rightarrow>
                 (case claims ''agent_id'' of
                    None \<Rightarrow> Inl (HTTPException 401 ''Invalid token: missing agent_id'')
                  | Some agent_id \<Rightarrow>
                      (case find (\<lambda>a. JInt (a_id a) = agent_id) (travel_agents d) of
                         None \<Rightarrow> Inl (HTTPException 401 ''Travel agent not found'')
                       | Some db_agent \<Rightarrow> Inr db_agent)))
      in case body of
           Inr v \<Rightarrow> Inr v
         | Inl e \<Rightarrow>
             if \<not> jwt_has ''ExpiredSignatureError'' then
               Inl (AttributeError ''ExpiredSignatureError'')
             else if e = ExpiredSignatureError then
               Inl (HTTPException 401 ''Token has expired'')
             else if \<not> jwt_has ''JWTError'' then
               Inl (AttributeError ''JWTError'')
             else if e = InvalidTokenError then
               Inl (HTTPException 401 ''Invalid token'')
             else Inl e)"

subsection \<open>login, login_travel_agent\<close>

record Credentials =
  cr_email :: string
  cr_password :: string

record HotelLoginResponse =
  hl_message :: string
  hl_access_token :: token
  hl_token_type :: string
  hl_hotel_id :: int
  hl_hotel_name :: string

record AgentLoginResponse =
  al_message :: string
  al_access_token :: token
  al_token_type :: string
  al_agent_id :: int
  al_agent_name :: string

definition login ::
  "(string \<Rightarrow> string \<Rightarrow> bool) \<Rightarrow> string \<Rightarrow> datetime \<Rightarrow> Credentials \<Rightarrow> db \<Rightarrow>
   py_error + HotelLoginResponse" where
  "login bcrypt_verify secret now hotel d =
     (case find (\<lambda>h. h_email h = cr_email hotel) (hotels d) of
        None \<Rightarrow> Inl (HTTPException 400 ''Invalid email or password'')
      | Some db_hotel \<Rightarrow>
          if \<not> bcrypt_verify (cr_password hotel) (h_password db_hotel) then
            Inl (HTTPException 400 ''Invalid email or password'')
          else
            (let access_token = create_access_token secret now
                   [''hotel_id'' \<mapsto> JInt (h_id db_hotel),
                    ''hotel_name'' \<mapsto> JStr (h_name db_hotel)]
             in Inr \<lparr>hl_message = ''Login successful'',
                     hl_access_token = access_token,
                     hl_token_type = ''bearer'',
                     hl_hotel_id = h_id db_hotel,
                     hl_hotel_name = h_name db_hotel\<rparr>))"

definition login_travel_agent ::
  "(string \<Rightarrow> string \<Rightarrow> bool) \<Rightarrow> string \<Rightarrow> datetime \<Rightarrow> Credentials \<Rightarrow> db \<Rightarrow>
   py_error + AgentLoginResponse" where
  "login_travel_agent bcrypt_verify secret now agent d =
     (case find (\<lambda>a. a_email a = cr_email agent) (travel_agents d) of
        None \<Rightarrow> Inl (HTTPException 400 ''Invalid email or password'')
      | Some db_agent \<Rightarrow>
          if \<not> bcrypt_verify (cr_password agent) (a_password db_agent) then
            Inl (HTTPException 400 ''Invalid email or password'')
          else
            (let access_token = create_access_token secret now
                   [''agent_id'' \<mapsto> JInt (a_id db_agent),
                    ''agent_name'' \<mapsto> JStr (a_name db_agent)]
             in Inr \<lparr>al_message = ''Login successful'',
                     al_access_token = access_token,
                     al_token_type = ''bearer'',
                     al_agent_id = a_id db_agent,
                     al_agent_name = a_name db_agent\<rparr>))"

section \<open>Example data\<close>

text \<open>The rows and requests of the docstrings' examples, used to run the functions.\<close>

definition empty_db :: db where
  "empty_db = \<lparr>hotels = [], travel_agents = [], trips = [], flight_segments = [],
                local_transports = [], hotel_stays = [], utility_bills = []\<rparr>"

definition example_hotel :: Hotel where
  "example_hotel = \<lparr>h_id = 1, h_name = ''Grand Resort Hotel'',
                     h_email = ''admin@grandresort.com'', h_password = ''$2b$12$hash''\<rparr>"

definition example_agent :: TravelAgent where
  "example_agent = \<lparr>a_id = 1, a_name = ''Sarah Travel'',
                     a_email = ''sarah@travelagency.com'', a_password = ''$2b$12$hash'',
                     a_company = Some ''Global Adventures Ltd''\<rparr>"

definition example_bill :: UtilityBill where
  "example_bill = \<lparr>ub_id = 1, ub_hotel_id = 1, ub_hotel_name = ''Grand Resort Hotel'',
                    bill_type = ''electricity'', bill_month = 3, bill_year = 2024,
                    bill_amount = ''1450.75'', unit = ''kWh'',
                    file_url = ''https://bucket.s3.amazonaws.com/bill.pdf''\<rparr>"

definition example_db :: db where
  "example_db = empty_db\<lparr>hotels := [example_hotel], travel_agents := [example_agent],
                          utility_bills := [example_bill]\<rparr>"

definition example_trip :: TripCreate where
  "example_trip =
     \<lparr>c_trip_name = ''European Adventure Tour'', c_trip_description = None,
      c_number_of_tourists = 15, c_start_date = 1719792000, c_end_date = 1721001600,
      c_flight_segments = [\<lparr>fc_departure_airport = ''JFK'', fc_arrival_airport = ''LHR'',
                             fc_transit_airports = None\<rparr>],
      c_local_transports = [\<lparr>tc_vehicle_type = ''bus'', tc_distance_km = 250.5\<rparr>],
      c_hotel_stays = [\<lparr>sc_hotel_id = 1, sc_number_of_nights = 3,
                          sc_check_in_date = 1719846000, sc_check_out_date = 1720090800\<rparr>]\<rparr>"


text \<open>A store holding a trip of two tourists with one flight segment.\<close>

definition stored_trip_db :: db where
  "stored_trip_db =
     empty_db\<lparr>travel_agents := [example_agent],
              trips := [\<lparr>t_id = 1, travel_agent_id = 1, trip_name = ''City Hop'',
                         trip_description = None, number_of_tourists = 2,
                         start_date = 1719792000, end_date = 1721001600\<rparr>],
              flight_segments := [\<lparr>fs_id = 1, fs_trip_id = 1, departure_airport = ''LHR'',
                                    arrival_airport = ''CDG'', transit_airports = None\<rparr>]\<rparr>"

text \<open>
  A stand-in for \<^verbatim>\<open>bcrypt.verify\<close> that accepts one password for the example hash, and
  the login requests of the docstrings.
\<close>

definition example_verify :: "string \<Rightarrow> string \<Rightarrow> bool" where
  "example_verify pw hash = (pw = ''securepassword123'' \<and> hash = ''$2b$12$hash'')"

definition hotel_credentials :: Credentials where
  "hotel_credentials =
     \<lparr>cr_email = ''admin@grandresort.com'', cr_password = ''securepassword123''\<rparr>"

definition agent_credentials :: Credentials where
  "agent_credentials =
     \<lparr>cr_email = ''sarah@travelagency.com'', cr_password = ''securepassword123''\<rparr>"

text \<open>
  The exception classes of the PyJWT package, the package that provides the module
  \<^verbatim>\<open>jwt\<close> with \<^verbatim>\<open>jwt.encode\<close>, \<^verbatim>\<open>jwt.decode\<close> and \<^verbatim>\<open>jwt.InvalidTokenError\<close> as
  auth.py uses them. It has no class \<^verbatim>\<open>JWTError\<close>.
\<close>

definition pyjwt_exceptions :: "string list" where
  "pyjwt_exceptions =
     [''PyJWTError'', ''InvalidTokenError'', ''DecodeError'', ''InvalidSignatureError'',
      ''ExpiredSignatureError'', ''InvalidAudienceError'', ''InvalidIssuerError'',
      ''InvalidIssuedAtError'', ''ImmatureSignatureError'', ''InvalidKeyError'',
      ''InvalidAlgorithmError'', ''MissingRequiredClaimError'']"

definition pyjwt_has :: "string \<Rightarrow> bool" where
  "pyjwt_has name = (name \<in> set pyjwt_exceptions)"

text \<open>
  The values of Python's \<^verbatim>\<open>float()\<close> on the amount texts used below; on any other text
  this stand-in raises.
\<close>

definition example_float :: "string \<Rightarrow> pyfloat option" where
  "example_float s =
     map_of [(''1450.75'', Fin 1450.75), (''2500'', Fin 2500), (''0.4'', Fin 0.4),
             (''0.8'', Fin 0.8), (''-5'', Fin (- 5)), (''nan'', NaN), (''inf'', PInf)] s"

definition example_env :: upload_env where
  "example_env = \<lparr>float_of_str = example_float, current_year = 2026,
                   timestamp = ''1710234567.89'', S3_BUCKET = ''your-s3-bucket-name'',
                   s3_error = None\<rparr>"

definition example_file :: UploadFile where
  "example_file = \<lparr>filename = ''march_bill.pdf'', file_content = ''%PDF''\<rparr>"




section \<open>Properties of the carbon functions\<close>

subsection \<open>Flights\<close>

lemma airport_distances_one_way:
  "airport_distances (a, b) = Some v \<Longrightarrow> airport_distances (b, a) = None \<and> v \<noteq> 0"
  by (auto simp: airport_distances_def split: if_splits)

lemma flight_carbon_unknown_route: "calculate_flight_carbon ''XXX'' ''YYY'' 10 = 1275"
  by (simp add: calculate_flight_carbon_def airport_distances_def py_or_def)

lemma flight_carbon_reverse_route: "calculate_flight_carbon ''LHR'' ''JFK'' 2 = 2830.5"
  by (simp add: calculate_flight_carbon_def airport_distances_def py_or_def)

text \<open>
  C8: the flight emission does not depend on the direction of the flight: for all airport
  codes \<open>a\<close>, \<open>b\<close> and every passenger count \<open>p\<close>, the value for \<open>a\<close> to \<open>b\<close> is the
  value for \<open>b\<close> to \<open>a\<close>. The route table holds no pair in both directions and no
  distance 0, so the two lookups find the same distance, or both fall back to 500 km.
\<close>

theorem flight_carbon_symmetric:
  "calculate_flight_carbon a b p = calculate_flight_carbon b a p"
proof -
  have "py_or (airport_distances (a, b)) (airport_distances (b, a)) =
        py_or (airport_distances (b, a)) (airport_distances (a, b))"
  proof (cases "airport_distances (a, b)")
    case None
    then show ?thesis
      by (cases "airport_distances (b, a)")
         (auto simp: py_or_def dest: airport_distances_one_way)
  next
    case (Some v)
    from airport_distances_one_way[OF this] Some show ?thesis
      by (simp add: py_or_def)
  qed
  then show ?thesis
    by (simp add: calculate_flight_carbon_def)
qed

subsection \<open>Local transport\<close>

text \<open>
  C7, as stated: the spec's example gives the value of
  \<^verbatim>\<open>transport_carbon("bus", 250.5, 15)\<close> as 334.54... The function returns
  250.5 * 0.089 * 15 = 334.4175, which does not start with 334.54.
\<close>

theorem transport_carbon_bus_counterexample:
  "calculate_transport_carbon ''bus'' 250.5 15 = 334.4175 \<and>
   \<not> (334.54 \<le> calculate_transport_carbon ''bus'' 250.5 15 \<and>
      calculate_transport_carbon ''bus'' 250.5 15 < 334.55)"
  by (simp add: calculate_transport_carbon_def transport_factors_def lower_def lower_char_def)

text \<open>
  C7, amended: for every vehicle type, distance and passenger count the transport emission
  is distance * factor * passengers, where the factor is looked up under the lower-cased
  vehicle type in the table (bus 0.089, car 0.171, train 0.041, taxi 0.171, metro 0.033)
  and is the car factor 0.171 for any other type; for a bus, 250.5 km and 15 passengers
  the value is 334.4175.
\<close>

theorem transport_carbon_formula:
  "calculate_transport_carbon v km p =
     km * (if lower v = ''bus'' then 0.089
           else if lower v = ''car'' then 0.171
           else if lower v = ''train'' then 0.041
           else if lower v = ''taxi'' then 0.171
           else if lower v = ''metro'' then 0.033
           else 0.171) * real_of_int p
   \<and> calculate_transport_carbon ''bus'' 250.5 15 = 334.4175"
  by (simp add: calculate_transport_carbon_def transport_factors_def lower_def lower_char_def)

subsection \<open>Hotel stays\<close>

lemma stay_bills_loop_raises:
  "bills \<noteq> [] \<Longrightarrow> stay_bills_loop bills acc = Inl (AttributeError ''consumption_amount'')"
  by (cases bills; cases acc) (simp_all add: getattr_UtilityBill_def)

lemma hotel_stay_carbon_with_bills:
  "filter (\<lambda>b. ub_hotel_id b = hotel_id) (utility_bills d) \<noteq> [] \<Longrightarrow>
   calculate_hotel_stay_carbon hotel_id nights guests d =
     Inl (AttributeError ''consumption_amount'')"
  by (simp add: calculate_hotel_stay_carbon_def stay_bills_loop_raises)

lemma hotel_stay_carbon_no_bills:
  "filter (\<lambda>b. ub_hotel_id b = hotel_id) (utility_bills d) = [] \<Longrightarrow>
   calculate_hotel_stay_carbon hotel_id nights guests d =
     Inr (30 * real_of_int nights * (real_of_int guests / 2))"
  by (simp add: calculate_hotel_stay_carbon_def)

lemma hotel_stay_carbon_default_example:
  "calculate_hotel_stay_carbon 7 3 4 empty_db = Inr 180"
  by (simp add: calculate_hotel_stay_carbon_def empty_db_def)

text \<open>
  C1: the claim is that the hotel-stay emission is computed for every input and is the
  average daily emission of the hotel's bills when it has any. The function reads
  \<^verbatim>\<open>bill.consumption_amount\<close>, an attribute that the \<^verbatim>\<open>UtilityBill\<close> model does not
  declare (its column is \<^verbatim>\<open>bill_amount\<close>): for hotel 1 with one electricity bill on
  record, 3 nights and 4 guests, it raises \<^verbatim>\<open>AttributeError\<close> and returns no value.
\<close>

theorem hotel_stay_carbon_raises:
  "calculate_hotel_stay_carbon 1 3 4 example_db = Inl (AttributeError ''consumption_amount'')"
  by (simp add: calculate_hotel_stay_carbon_def example_db_def empty_db_def example_bill_def
      getattr_UtilityBill_def)

subsection \<open>Carbon per tourist\<close>

lemma create_trip_zero_tourists:
  "carbon_per_tourist_kg
     (projr (snd (create_trip (example_trip\<lparr>c_number_of_tourists := 0, c_hotel_stays := []\<rparr>)
                    example_agent empty_db))) = 0"
  by (simp add: create_trip_def example_trip_def empty_db_def example_agent_def round3_def
      Let_def)

lemma round3_zero: "round3 0 = 0"
  by (simp add: round3_def)

lemma foldl_add_sum_list:
  "foldl (\<lambda>total x. total + f x) a xs = a + sum_list (map f xs)" for a :: real
  by (induction xs arbitrary: a) simp_all

lemma create_stays_loop_total:
  "create_stays_loop d tid n stays (pending, tot, details) = Inr (pending', tot', details')
   \<Longrightarrow> tot' - sum_list (map hd_carbon_kg details') = tot - sum_list (map hd_carbon_kg details)"
proof (induction stays arbitrary: pending tot details)
  case Nil
  then show ?case by simp
next
  case (Cons s stays)
  then show ?case
    by (auto split: sum.splits simp: Let_def)
qed

text \<open>
  Trip creation guards the division: the carbon per tourist is the rounded quotient of
  the total (the sum of the reported components) by the number of tourists, and 0 when
  that number is not positive.
\<close>

lemma create_trip_per_tourist:
  assumes "snd (create_trip trip agent d) = Inr r"
  shows "carbon_per_tourist_kg r =
           (if 0 < c_number_of_tourists trip
            then round3 ((sum_list (map fd_carbon_kg (flight_details r)) +
                          sum_list (map td_carbon_kg (transport_details r)) +
                          sum_list (map hd_carbon_kg (hotel_details r)))
                         / real_of_int (c_number_of_tourists trip))
            else 0)"
  using assms
  by (auto simp: create_trip_def Let_def foldl_add_sum_list round3_zero
      split: sum.splits prod.splits dest!: create_stays_loop_total)

text \<open>
  The detail read returns only for a trip whose number of tourists is not 0, and then
  reports the rounded quotient.
\<close>

lemma trip_carbon_details_per_tourist:
  "get_trip_carbon_details trip_id agent d = Inr r \<Longrightarrow>
   cd_number_of_tourists r \<noteq> 0 \<and>
   (\<exists>total. calculate_trip_total_carbon trip_id d = Inr total \<and>
            cd_total_carbon_kg r = round3 total \<and>
            cd_carbon_per_tourist_kg r = round3 (total / real_of_int (cd_number_of_tourists r)))"
  by (auto simp: get_trip_carbon_details_def py_truediv_def Let_def
      split: option.splits sum.splits if_splits)

lemma trip_carbon_details_raises_on_zero:
  "find (\<lambda>t. t_id t = trip_id \<and> travel_agent_id t = a_id agent) (trips d) = Some trip \<Longrightarrow>
   number_of_tourists trip = 0 \<Longrightarrow>
   calculate_trip_total_carbon trip_id d = Inr tc \<Longrightarrow>
   get_trip_carbon_details trip_id agent d = Inl ZeroDivisionError"
  by (simp add: get_trip_carbon_details_def py_truediv_def)


subsection \<open>The per-trip breakdown\<close>

text \<open>
  C9: for every trip id the breakdown function returns three empty lists, and so every
  response of the per-trip detail read carries empty flight, transport and hotel
  breakdowns next to its totals.
\<close>

theorem trip_carbon_breakdown_empty:
  "get_trip_carbon_breakdown trip_id d =
     \<lparr>flights_breakdown = [], transport_breakdown = [], hotels_breakdown = []\<rparr> \<and>
   (\<forall>r. get_trip_carbon_details trip_id agent d = Inr r \<longrightarrow>
        flights_breakdown (cd_breakdown r) = [] \<and>
        transport_breakdown (cd_breakdown r) = [] \<and>
        hotels_breakdown (cd_breakdown r) = [])"
  by (auto simp: get_trip_carbon_breakdown_def get_trip_carbon_details_def Let_def
      split: option.splits sum.splits)

lemma stored_trip_details:
  "get_trip_carbon_details 1 example_agent stored_trip_db =
     Inr \<lparr>cd_trip_id = 1, cd_trip_name = ''City Hop'', cd_number_of_tourists = 2,
          cd_total_carbon_kg = 178.5, cd_carbon_per_tourist_kg = 89.25,
          cd_breakdown = \<lparr>flights_breakdown = [], transport_breakdown = [],
                          hotels_breakdown = []\<rparr>\<rparr>"
  by (simp add: get_trip_carbon_details_def stored_trip_db_def empty_db_def example_agent_def
      calculate_trip_total_carbon_def py_truediv_def calculate_flight_carbon_def
      airport_distances_def py_or_def round3_def get_trip_carbon_breakdown_def Let_def)

text \<open>
  The detail read of the stored two-tourist trip returns: a total of 178.5 kg and empty
  breakdowns.
\<close>

theorem trip_carbon_breakdown_empty_witness:
  "\<exists>r. get_trip_carbon_details 1 example_agent stored_trip_db = Inr r \<and>
       cd_total_carbon_kg r = 178.5 \<and>
       flights_breakdown (cd_breakdown r) = [] \<and>
       transport_breakdown (cd_breakdown r) = [] \<and>
       hotels_breakdown (cd_breakdown r) = []"
  using trip_carbon_breakdown_empty[of 1 stored_trip_db example_agent] stored_trip_details
  by simp

section \<open>Properties of the trip ledger\<close>








section \<open>Properties of the credential service\<close>

subsection \<open>Bad credentials\<close>

text \<open>
  C4, as stated: a login with bad credentials fails with status 401. A hotel login with
  an unknown email and an agent login with a wrong password both fail with status 400.
\<close>

theorem login_bad_credentials_counterexample:
  "login example_verify ''key'' 0
     \<lparr>cr_email = ''nobody@example.com'', cr_password = ''guess''\<rparr> example_db
     = Inl (HTTPException 400 ''Invalid email or password'') \<and>
   login_travel_agent example_verify ''key'' 0
     (agent_credentials\<lparr>cr_password := ''guess''\<rparr>) example_db
     = Inl (HTTPException 400 ''Invalid email or password'') \<and>
   HTTPException 400 ''Invalid email or password'' \<noteq>
     HTTPException 401 ''Invalid email or password''"
  by (simp add: login_def login_travel_agent_def example_db_def empty_db_def example_hotel_def
      example_agent_def agent_credentials_def example_verify_def)

text \<open>
  C4, amended: for either identity kind, a login whose email is unknown or whose password
  does not verify against the stored hash fails with HTTP status 400 and the one detail
  text "Invalid email or password", the same in both cases.
\<close>

theorem login_bad_credentials:
  "((case find (\<lambda>h. h_email h = cr_email c) (hotels d) of
       None \<Rightarrow> True
     | Some h \<Rightarrow> \<not> verify (cr_password c) (h_password h)) \<longrightarrow>
    login verify secret now c d = Inl (HTTPException 400 ''Invalid email or password'')) \<and>
   ((case find (\<lambda>a. a_email a = cr_email c) (travel_agents d) of
       None \<Rightarrow> True
     | Some a \<Rightarrow> \<not> verify (cr_password c) (a_password a)) \<longrightarrow>
    login_travel_agent verify secret now c d =
      Inl (HTTPException 400 ''Invalid email or password''))"
  by (simp add: login_def login_travel_agent_def split: option.splits)

text \<open>
  Unknown email and wrong password, for a hotel and for an agent: the same error each
  time.
\<close>

theorem login_bad_credentials_witness:
  "login example_verify ''key'' 0
     \<lparr>cr_email = ''nobody@example.com'', cr_password = ''guess''\<rparr> example_db
     = Inl (HTTPException 400 ''Invalid email or password'') \<and>
   login example_verify ''key'' 0 (hotel_credentials\<lparr>cr_password := ''guess''\<rparr>) example_db
     = Inl (HTTPException 400 ''Invalid email or password'') \<and>
   login_travel_agent example_verify ''key'' 0
     \<lparr>cr_email = ''nobody@example.com'', cr_password = ''guess''\<rparr> example_db
     = Inl (HTTPException 400 ''Invalid email or password'') \<and>
   login_travel_agent example_verify ''key'' 0
     (agent_credentials\<lparr>cr_password := ''guess''\<rparr>) example_db
     = Inl (HTTPException 400 ''Invalid email or password'')"
  using login_bad_credentials[where c = "\<lparr>cr_email = ''nobody@example.com'',
            cr_password = ''guess''\<rparr>"
          and d = example_db and verify = example_verify and secret = "''key''" and now = 0]
        login_bad_credentials[where c = "hotel_credentials\<lparr>cr_password := ''guess''\<rparr>"
          and d = example_db and verify = example_verify and secret = "''key''" and now = 0]
        login_bad_credentials[where c = "agent_credentials\<lparr>cr_password := ''guess''\<rparr>"
          and d = example_db and verify = example_verify and secret = "''key''" and now = 0]
  by (simp add: example_db_def empty_db_def example_hotel_def example_agent_def
      hotel_credentials_def agent_credentials_def example_verify_def)

subsection \<open>Tokens of the two identity kinds\<close>

lemma login_good_credentials:
  "login example_verify ''key'' 1000 hotel_credentials example_db =
     Inr \<lparr>hl_message = ''Login successful'',
          hl_access_token =
            Token [''hotel_id'' \<mapsto> JInt 1, ''hotel_name'' \<mapsto> JStr ''Grand Resort Hotel'',
                   ''exp'' \<mapsto> JInt 87400] ''key'',
          hl_token_type = ''bearer'', hl_hotel_id = 1,
          hl_hotel_name = ''Grand Resort Hotel''\<rparr>"
  by (simp add: login_def example_db_def empty_db_def example_hotel_def hotel_credentials_def
      example_verify_def create_access_token_def jwt_encode_def)

lemma login_agent_good_credentials:
  "login_travel_agent example_verify ''key'' 1000 agent_credentials example_db =
     Inr \<lparr>al_message = ''Login successful'',
          al_access_token =
            Token [''agent_id'' \<mapsto> JInt 1, ''agent_name'' \<mapsto> JStr ''Sarah Travel'',
                   ''exp'' \<mapsto> JInt 87400] ''key'',
          al_token_type = ''bearer'', al_agent_id = 1, al_agent_name = ''Sarah Travel''\<rparr>"
  by (simp add: login_travel_agent_def example_db_def empty_db_def example_agent_def
      agent_credentials_def example_verify_def create_access_token_def jwt_encode_def)

text \<open>The names of the three except clauses in the PyJWT module.\<close>

lemma pyjwt_has_names:
  "pyjwt_has ''ExpiredSignatureError''" "pyjwt_has ''InvalidTokenError''"
  "\<not> pyjwt_has ''JWTError''"
  by (simp_all add: pyjwt_has_def pyjwt_exceptions_def)

text \<open>Each verifier accepts the token of its own kind before the token expires.\<close>

lemma hotel_token_round_trip:
  "get_current_hotel pyjwt_has ''key'' 2000
     (Token [''hotel_id'' \<mapsto> JInt 1, ''hotel_name'' \<mapsto> JStr ''Grand Resort Hotel'',
             ''exp'' \<mapsto> JInt 87400] ''key'') = Inr (JInt 1, JStr ''Grand Resort Hotel'')"
  by (simp add: get_current_hotel_def jwt_decode_def)

lemma agent_token_round_trip:
  "get_current_travel_agent pyjwt_has ''key'' 2000
     (Token [''agent_id'' \<mapsto> JInt 1, ''agent_name'' \<mapsto> JStr ''Sarah Travel'',
             ''exp'' \<mapsto> JInt 87400] ''key'') example_db = Inr example_agent"
  by (simp add: get_current_travel_agent_def jwt_decode_def example_db_def empty_db_def
      example_agent_def)

text \<open>
  The hotel verifier answers every token of an agent login with a 401 error, when the
  module defines the two classes its clauses name.
\<close>

lemma agent_token_rejected_by_hotel_verifier:
  "jwt_has ''ExpiredSignatureError'' \<Longrightarrow> jwt_has ''InvalidTokenError'' \<Longrightarrow>
   login_travel_agent verify secret t c d = Inr r \<Longrightarrow>
   \<exists>detail. get_current_hotel jwt_has secret' now (al_access_token r) =
              Inl (HTTPException 401 detail)"
  by (auto simp: login_travel_agent_def create_access_token_def jwt_encode_def
      get_current_hotel_def jwt_decode_def Let_def split: option.splits if_splits)

text \<open>
  The travel-agent verifier would answer every token of a hotel login with a 401 error
  if the module defined a class \<^verbatim>\<open>JWTError\<close>.
\<close>

lemma hotel_token_rejected_by_agent_verifier:
  "jwt_has ''ExpiredSignatureError'' \<Longrightarrow> jwt_has ''JWTError'' \<Longrightarrow>
   login verify secret t c d = Inr r \<Longrightarrow>
   \<exists>detail. get_current_travel_agent jwt_has secret' now (hl_access_token r) d' =
              Inl (HTTPException 401 detail)"
  by (auto simp: login_def create_access_token_def jwt_encode_def
      get_current_travel_agent_def jwt_decode_def Let_def split: option.splits if_splits)

text \<open>Whatever the module defines, neither verifier accepts a token of the other kind.\<close>

lemma hotel_token_never_accepted:
  "login verify secret t c d = Inr r \<Longrightarrow>
   get_current_travel_agent jwt_has secret' now (hl_access_token r) d' \<noteq> Inr a"
  by (auto simp: login_def create_access_token_def jwt_encode_def
      get_current_travel_agent_def jwt_decode_def Let_def split: option.splits if_splits)

lemma agent_token_never_accepted:
  "login_travel_agent verify secret t c d = Inr r \<Longrightarrow>
   get_current_hotel jwt_has secret' now (al_access_token r) \<noteq> Inr v"
  by (auto simp: login_travel_agent_def create_access_token_def jwt_encode_def
      get_current_hotel_def jwt_decode_def Let_def split: option.splits if_splits)

text \<open>
  Without a class \<^verbatim>\<open>JWTError\<close> in the module, the travel-agent verifier answers a
  hotel token with a 401 error only when the token is rightly signed and expired; in
  every other case the lookup of \<^verbatim>\<open>jwt.JWTError\<close> raises.
\<close>

lemma hotel_token_without_JWTError:
  "jwt_has ''ExpiredSignatureError'' \<Longrightarrow> \<not> jwt_has ''JWTError'' \<Longrightarrow>
   login verify secret t c d = Inr r \<Longrightarrow>
   get_current_travel_agent jwt_has secret' now (hl_access_token r) d' =
     (if secret' = secret \<and> t + 24 * 3600 \<le> now
      then Inl (HTTPException 401 ''Token has expired'')
      else Inl (AttributeError ''JWTError''))"
  by (auto simp: login_def create_access_token_def jwt_encode_def
      get_current_travel_agent_def jwt_decode_def Let_def split: option.splits if_splits)

text \<open>
  C10: the claim is that the verifier of one identity kind answers every token of the
  other kind with a 401 error. The travel-agent verifier raises the 401 error for the
  missing \<^verbatim>\<open>agent_id\<close> claim inside its \<^verbatim>\<open>try\<close> block, and its second handler names
  \<^verbatim>\<open>jwt.JWTError\<close>, which the PyJWT module does not define: for the token of the example
  hotel login, presented with the right key before it expires, the verifier raises
  \<^verbatim>\<open>AttributeError\<close>, not an HTTP 401 error.
\<close>

theorem hotel_token_at_agent_verifier:
  "map_sum id (\<lambda>r. get_current_travel_agent pyjwt_has ''key'' 2000 (hl_access_token r)
                     example_db)
     (login example_verify ''key'' 1000 hotel_credentials example_db) =
   Inr (Inl (AttributeError ''JWTError''))"
  by (simp add: login_good_credentials get_current_travel_agent_def jwt_decode_def
      pyjwt_has_names)

section \<open>Properties of the bill ledger\<close>

subsection \<open>Validation of an upload\<close>

text \<open>
  The checks run in the order bill type, month, year, amount, unit; the first one that
  fails decides the error, and the bucket and the store are as before.
\<close>

lemma upload_bill_order:
  "btype \<notin> {''electricity'', ''water''} \<Longrightarrow>
     upload_bill env btype m y a u f h w =
       (w, Inl (HTTPException 400
                  (''Invalid bill type. Must be 'electricity' or 'water'' @ [CHR 0x27])))"
  "btype \<in> {''electricity'', ''water''} \<Longrightarrow> \<not> (1 \<le> m \<and> m \<le> 12) \<Longrightarrow>
     upload_bill env btype m y a u f h w =
       (w, Inl (HTTPException 400 ''Invalid month. Must be between 1 and 12''))"
  "btype \<in> {''electricity'', ''water''} \<Longrightarrow> 1 \<le> m \<and> m \<le> 12 \<Longrightarrow>
   y < 2020 \<or> current_year env + 1 < y \<Longrightarrow>
     upload_bill env btype m y a u f h w =
       (w, Inl (HTTPException 400
                  (''Invalid year. Must be between 2020 and '' @
                   str_int (current_year env + 1))))"
  "btype \<in> {''electricity'', ''water''} \<Longrightarrow> 1 \<le> m \<and> m \<le> 12 \<Longrightarrow>
   2020 \<le> y \<and> y \<le> current_year env + 1 \<Longrightarrow> float_of_str env a = None \<Longrightarrow>
     upload_bill env btype m y a u f h w =
       (w, Inl (HTTPException 400
                  ''Bill amount must be a valid number (e.g., '450' or '1250.75')''))"
  "btype \<in> {''electricity'', ''water''} \<Longrightarrow> 1 \<le> m \<and> m \<le> 12 \<Longrightarrow>
   2020 \<le> y \<and> y \<le> current_year env + 1 \<Longrightarrow> float_of_str env a = Some x \<Longrightarrow>
   pf_less_zero x \<Longrightarrow>
     upload_bill env btype m y a u f h w =
       (w, Inl (HTTPException 400 ''Bill amount must be a positive number''))"
  "btype \<in> {''electricity'', ''water''} \<Longrightarrow> 1 \<le> m \<and> m \<le> 12 \<Longrightarrow>
   2020 \<le> y \<and> y \<le> current_year env + 1 \<Longrightarrow> float_of_str env a = Some x \<Longrightarrow>
   \<not> pf_less_zero x \<Longrightarrow> lower u \<notin> set (map lower (valid_units_get btype)) \<Longrightarrow>
     upload_bill env btype m y a u f h w =
       (w, Inl (HTTPException 400
                  (''Invalid unit for '' @ btype @ ''. Valid units: '' @
                   join '', '' (valid_units_get btype))))"
  by (auto simp: upload_bill_def)

lemma upload_bill_error_no_write:
  "snd (upload_bill env btype m y a u f h w) = Inl e \<Longrightarrow>
   fst (upload_bill env btype m y a u f h w) = w"
  by (auto simp: upload_bill_def Let_def split: if_splits option.splits)

text \<open>
  A stored bill passed every check: its amount text is one that \<^verbatim>\<open>float()\<close> reads as a
  value that is not below 0, and its unit is in the list of its type up to letter case.
\<close>

lemma upload_bill_stored:
  "snd (upload_bill env btype m y a u f h w) = Inr r \<Longrightarrow>
   btype \<in> {''electricity'', ''water''} \<and> 1 \<le> m \<and> m \<le> 12 \<and>
   2020 \<le> y \<and> y \<le> current_year env + 1 \<and>
   (\<exists>x. float_of_str env a = Some x \<and> \<not> pf_less_zero x) \<and>
   lower u \<in> set (map lower (valid_units_get btype)) \<and>
   (\<exists>b. utility_bills (snd (fst (upload_bill env btype m y a u f h w))) =
          utility_bills (snd w) @ [b] \<and>
        bill_type b = btype \<and> bill_month b = m \<and> bill_year b = y \<and>
        bill_amount b = a \<and> unit b = u \<and> ub_hotel_id b = fst h)"
  by (auto simp: upload_bill_def Let_def split: if_splits option.splits)

lemma upload_bill_negative_rejected:
  "upload_bill example_env ''electricity'' 3 2024 ''-5'' ''kWh'' example_file
     (1, ''Grand Resort Hotel'') ([], empty_db) =
   (([], empty_db), Inl (HTTPException 400 ''Bill amount must be a positive number''))"
  by (simp add: upload_bill_def example_env_def example_float_def)

text \<open>
  C5: the claim is that an amount text which is not a non-negative real is rejected
  before anything is stored, so that every stored bill has a non-negative parsed amount.
  The amount check rejects a text only when \<^verbatim>\<open>float()\<close> refuses it or reads it as a
  value below 0. \<^verbatim>\<open>float("nan")\<close> is the value nan, and \<^verbatim>\<open>nan < 0\<close> is false: an
  upload with the amount text \<^verbatim>\<open>nan\<close> passes every check, and the bill is stored with
  that amount.
\<close>

theorem upload_bill_accepts_nan:
  "float_of_str example_env ''nan'' = Some NaN \<and>
   map bill_amount (utility_bills (snd (fst
     (upload_bill example_env ''electricity'' 3 2024 ''nan'' ''kWh'' example_file
        (1, ''Grand Resort Hotel'') ([], empty_db))))) = [''nan''] \<and>
   map_sum id br_message (snd
     (upload_bill example_env ''electricity'' 3 2024 ''nan'' ''kWh'' example_file
        (1, ''Grand Resort Hotel'') ([], empty_db))) = Inr ''Bill uploaded successfully''"
  by (simp add: upload_bill_def example_env_def example_float_def valid_units_get_def
      valid_units_def lower_def lower_char_def empty_db_def Let_def)

subsection \<open>The footprint of a hotel\<close>











end
